theory Spec2Isabelle
  imports Complex_Main
begin

section \<open>JavaScript values, strings and numbers\<close>

text \<open>
  The pipeline under study is \<^verbatim>\<open>parseCSV\<close> of the upload component
  (\<^verbatim>\<open>src/unnamed/part_002\<close>) and \<^verbatim>\<open>calculateMetrics\<close> of
  \<^verbatim>\<open>src/App.tsx\<close>.

  Idealisations, stated once:
  \<^item> a JavaScript number is a \<open>real\<close>: rounding, overflow and the non-finite values
    (\<^verbatim>\<open>Infinity\<close>, \<^verbatim>\<open>NaN\<close> as a stored value) are outside the model; the
    \<^verbatim>\<open>NaN\<close> that \<^verbatim>\<open>parseFloat\<close> returns is \<open>None\<close>;
  \<^item> a string is a list of bytes; case mapping and white space are the ASCII ones, so
    that a no-break space, which \<^verbatim>\<open>trim\<close> strips, is an ordinary character here;
  \<^item> an object built with dynamic keys (\<^verbatim>\<open>(entry as any)[name] = v\<close>) is a map from
    property names to values, an absent key being \<^verbatim>\<open>undefined\<close>; every name is an
    ordinary key (the prototype's \<^verbatim>\<open>__proto__\<close> is not set apart).
  None of the concrete inputs below holds a non-finite literal, a character outside
  ASCII or a column of that name.
\<close>

datatype jsval = Str string | Num real

type_synonym jsobj = "string \<Rightarrow> jsval option"

text \<open>
  \<^verbatim>\<open>obj[k] ?? d\<close> at a field the declared types give as \<^verbatim>\<open>number\<close>. A string
  never stands at such a field: the parser stores numbers under every metric name
  (\<open>rowFields_numeric\<close> below), so the third equation is not reached by the pipeline.
\<close>

fun nullish :: "jsval option \<Rightarrow> real \<Rightarrow> real" where
  "nullish None d = d"
| "nullish (Some (Num x)) d = x"
| "nullish (Some (Str s)) d = d"

definition isWhite :: "char \<Rightarrow> bool" where
  "isWhite c = (c \<in> set [CHR '' '', CHR 0x09, CHR 0x0A, CHR 0x0B, CHR 0x0C, CHR 0x0D])"

definition trim :: "string \<Rightarrow> string" where
  "trim s = rev (dropWhile isWhite (rev (dropWhile isWhite s)))"

text \<open>\<^verbatim>\<open>s.split(sep)\<close> for a one-character separator: never the empty list.\<close>

fun split :: "char \<Rightarrow> string \<Rightarrow> string list" where
  "split sep [] = [[]]"
| "split sep (c # cs) =
     (if c = sep then [] # split sep cs
      else (case split sep cs of w # ws \<Rightarrow> (c # w) # ws | [] \<Rightarrow> [[c]]))"

definition caseTable :: "(char \<times> char) list" where
  "caseTable = zip ''ABCDEFGHIJKLMNOPQRSTUVWXYZ'' ''abcdefghijklmnopqrstuvwxyz''"

definition lowerChar :: "char \<Rightarrow> char" where
  "lowerChar c = (case map_of caseTable c of Some l \<Rightarrow> l | None \<Rightarrow> c)"

definition upperChar :: "char \<Rightarrow> char" where
  "upperChar c = (case map_of (map (\<lambda>(u, l). (l, u)) caseTable) c of Some u \<Rightarrow> u | None \<Rightarrow> c)"

definition toLowerCase :: "string \<Rightarrow> string" where
  "toLowerCase s = map lowerChar s"

definition toUpperCase :: "string \<Rightarrow> string" where
  "toUpperCase s = map upperChar s"

definition digitTable :: "(char \<times> nat) list" where
  "digitTable = [(CHR ''0'', 0), (CHR ''1'', 1), (CHR ''2'', 2), (CHR ''3'', 3), (CHR ''4'', 4),
                 (CHR ''5'', 5), (CHR ''6'', 6), (CHR ''7'', 7), (CHR ''8'', 8), (CHR ''9'', 9)]"

definition isDigit :: "char \<Rightarrow> bool" where
  "isDigit c = (map_of digitTable c \<noteq> None)"

definition digitsValue :: "string \<Rightarrow> nat" where
  "digitsValue ds =
     foldl (\<lambda>a c. 10 * a + (case map_of digitTable c of Some d \<Rightarrow> d | None \<Rightarrow> 0)) 0 ds"

text \<open>
  \<^verbatim>\<open>parseFloat\<close> of ECMAScript: leading white space is skipped and the longest prefix
  that is a decimal literal (sign, digits, fraction, exponent) is read; no such prefix is
  \<^verbatim>\<open>NaN\<close>, here \<open>None\<close>. The literal \<^verbatim>\<open>Infinity\<close>, which has no real value, is
  not read.
\<close>

definition scale10 :: "real \<Rightarrow> int \<Rightarrow> real" where
  "scale10 x e = (if 0 \<le> e then x * 10 ^ nat e else x / 10 ^ nat (- e))"

text \<open>The longest run of digits at the front of a string, and what follows it.\<close>

fun spanDigits :: "string \<Rightarrow> string \<times> string" where
  "spanDigits [] = ([], [])"
| "spanDigits (c # cs) =
     (if isDigit c then (case spanDigits cs of (ds, r) \<Rightarrow> (c # ds, r)) else ([], c # cs))"

definition exponentPart :: "string \<Rightarrow> int" where
  "exponentPart r =
     (case r of
        [] \<Rightarrow> 0
      | e # r1 \<Rightarrow>
          if e = CHR ''e'' \<or> e = CHR ''E'' then
            (case r1 of
               [] \<Rightarrow> 0
             | s # r2 \<Rightarrow>
                 if s = CHR ''-'' then - int (digitsValue (fst (spanDigits r2)))
                 else if s = CHR ''+'' then int (digitsValue (fst (spanDigits r2)))
                 else int (digitsValue (fst (spanDigits r1))))
          else 0)"

definition fractionPart :: "string \<Rightarrow> string \<times> string" where
  "fractionPart r1 =
     (case r1 of
        [] \<Rightarrow> ([], [])
      | d # r \<Rightarrow> if d = CHR ''.'' then spanDigits r else ([], r1))"

definition unsignedDecimal :: "string \<Rightarrow> real option" where
  "unsignedDecimal u =
     (case spanDigits u of
        (ip, r1) \<Rightarrow>
          (case fractionPart r1 of
             (fp, r2) \<Rightarrow>
               if ip = [] \<and> fp = [] then None
               else Some (scale10 (real (digitsValue ip) + real (digitsValue fp) / 10 ^ length fp)
                                  (exponentPart r2))))"

definition parseFloat :: "string \<Rightarrow> real option" where
  "parseFloat s =
     (case dropWhile isWhite s of
        [] \<Rightarrow> None
      | c # r \<Rightarrow>
          if c = CHR ''-'' then map_option uminus (unsignedDecimal r)
          else if c = CHR ''+'' then unsignedDecimal r
          else unsignedDecimal (c # r))"

text \<open>A positive integer in a template string: its decimal digits.\<close>

definition digitChar :: "nat \<Rightarrow> char" where
  "digitChar d = ''0123456789'' ! d"

fun showNat :: "nat \<Rightarrow> string" where
  "showNat n = (if n < 10 then [digitChar n] else showNat (n div 10) @ [digitChar (n mod 10)])"

declare showNat.simps [simp del]

section \<open>The data model (\<^verbatim>\<open>types.ts\<close>)\<close>

datatype FunnelStageContext = TOF | MOF | BOF

fun stageName :: "FunnelStageContext \<Rightarrow> string" where
  "stageName TOF = ''TOF''"
| "stageName MOF = ''MOF''"
| "stageName BOF = ''BOF''"

text \<open>
  The messages pushed on \<^verbatim>\<open>validationErrors\<close>, one constructor per template string,
  holding the values the template interpolates.
\<close>

datatype validationError =
    MissingColumns "string list"
  | MismatchedColumns nat nat nat
  | ExpectedNumber string string string
  | CannotBeNegative "jsval option" string
  | ClicksExceedReach "jsval option" real real
  | CtrOutOfRange "jsval option" real
  | RoasNegative "jsval option" real

text \<open>
  The errors \<^verbatim>\<open>parseCSV\<close> throws. \<open>ValidationFailed\<close> is the message of lines
  107 to 113: the first five recorded messages and, when there are more, how many more.
\<close>

datatype parseError =
    EmptyOrInvalid
  | InvalidHeader
  | NoMetricColumns
  | ValidationFailed "validationError list" "nat option"
  | NoValidRows
  | NoShots

record AggregatedMetrics =
  totalAdSpent :: real
  totalConversions :: real
  totalLinkClicks :: real
  totalReach :: real
  totalLPViews :: real
  totalATCs :: real
  totalICs :: real
  avgCPM :: real
  avgCTR :: real
  avgROAS :: real
  avgCPA :: real
  avgAdFrequency :: real
  cpc :: real
  totalImpressions :: real

section \<open>\<^verbatim>\<open>parseCSV\<close>: reading and validating the rows\<close>

text \<open>Line 17: the non-blank lines of the trimmed text.\<close>

definition csvLines :: "string \<Rightarrow> string list" where
  "csvLines text = filter (\<lambda>line. trim line \<noteq> []) (split CHR 0x0A (trim text))"

definition requiredMetricNames :: "string list" where
  "requiredMetricNames =
     [''cpm'', ''ctr'', ''reach'', ''link clicks'', ''landing page views'', ''add to carts'',
      ''initiate checkout'', ''conversions'', ''cpa'', ''roas'', ''ad spent'', ''ad frequency'']"

definition capitalize :: "string \<Rightarrow> string" where
  "capitalize m = (case m of [] \<Rightarrow> [] | c # cs \<Rightarrow> upperChar c # cs)"

text \<open>Lines 37 to 42: the required names, compared in lower case with the header's.\<close>

definition headerErrors :: "string list \<Rightarrow> validationError list" where
  "headerErrors metricNames =
     (let presentHeadersLowerCase = map toLowerCase metricNames;
          missingRequired = filter (\<lambda>req. req \<notin> set presentHeadersLowerCase) requiredMetricNames
      in if missingRequired \<noteq> [] then [MissingColumns (map capitalize missingRequired)] else [])"

text \<open>
  Lines 58 to 70, one metric column of one row: the entry under construction, the flag
  \<^verbatim>\<open>rowHasValidMetricData\<close> and the recorded errors.
\<close>

fun fieldStep ::
  "string \<Rightarrow> jsobj \<times> bool \<times> validationError list \<Rightarrow> string \<times> string \<Rightarrow>
   jsobj \<times> bool \<times> validationError list" where
  "fieldStep dateStr (dailyEntry, rowHasValidMetricData, validationErrors) (headerName, valueStr) =
     (case parseFloat valueStr of
        Some parsedValue \<Rightarrow>
          (dailyEntry(headerName \<mapsto> Num parsedValue), True, validationErrors)
      | None \<Rightarrow>
          if valueStr \<noteq> [] then
            (dailyEntry(headerName \<mapsto> Num 0), rowHasValidMetricData,
             validationErrors @ [ExpectedNumber dateStr headerName valueStr])
          else (dailyEntry(headerName \<mapsto> Num 0), rowHasValidMetricData, validationErrors))"

text \<open>
  Lines 20 and 45: \<^verbatim>\<open>line.split(',').map(p => p.trim())\<close>, for the header and for
  every data line.
\<close>

definition parts :: "string \<Rightarrow> string list" where
  "parts line = map trim (split CHR '','' line)"

text \<open>
  Lines 44 to 75, one data line. \<^verbatim>\<open>parts[colIndex + 1]\<close> for the metric at
  \<open>colIndex\<close> is the pairing of the metric names with the cells after the date: the
  column count has been checked to be the header's.
\<close>

fun rowStep ::
  "string list \<Rightarrow> jsobj list \<times> validationError list \<Rightarrow> nat \<times> string \<Rightarrow>
   jsobj list \<times> validationError list" where
  "rowStep rawHeaders (dailyData, validationErrors) (rowIndex, line) =
     (case parts line of
        [] \<Rightarrow> (dailyData, validationErrors)
      | dateStr # cells \<Rightarrow>
          if list_all (\<lambda>p. p = []) (dateStr # cells) then (dailyData, validationErrors)
          else if length (dateStr # cells) \<noteq> length rawHeaders then
            (dailyData,
             validationErrors @
               [MismatchedColumns (rowIndex + 2) (length rawHeaders) (length (dateStr # cells))])
          else
            (case foldl (fieldStep dateStr)
                    ([''date'' \<mapsto> Str dateStr], False, validationErrors)
                    (zip (tl rawHeaders) cells) of
               (dailyEntry, rowHasValidMetricData, validationErrors') \<Rightarrow>
                 (if rowHasValidMetricData then dailyData @ [dailyEntry] else dailyData,
                  validationErrors')))"

declare rowStep.simps [simp del]

text \<open>Lines 78 to 105: the cross-metric checks of one daily entry.\<close>

definition rangeChecks :: "jsobj \<Rightarrow> validationError list" where
  "rangeChecks day =
     (let date = day ''date'';
          adSpent = nullish (day ''Ad spent'') 0;
          conversions = nullish (day ''Conversions'') 0;
          linkClicks = nullish (day ''LINK CLICKS'') 0;
          reach = nullish (day ''REACH'') 0;
          ctr = nullish (day ''CTR'') 0;
          roas = nullish (day ''ROAS'') 0;
          adFrequency = nullish (day ''AD FREQUENCY'') 0
      in (if adSpent < 0 then [CannotBeNegative date ''Ad spent''] else []) @
         (if conversions < 0 then [CannotBeNegative date ''Conversions''] else []) @
         (if linkClicks < 0 then [CannotBeNegative date ''LINK CLICKS''] else []) @
         (if reach < 0 then [CannotBeNegative date ''REACH''] else []) @
         (if adFrequency < 0 then [CannotBeNegative date ''AD FREQUENCY''] else []) @
         (if linkClicks > 0 \<and> reach > 0 \<and> linkClicks > reach
          then [ClicksExceedReach date linkClicks reach] else []) @
         (if ctr < 0 \<or> ctr > 1 then [CtrOutOfRange date ctr] else []) @
         (if roas < 0 then [RoasNegative date roas] else []))"

text \<open>
  Lines 29 to 105: \<^verbatim>\<open>dailyData\<close> and \<^verbatim>\<open>validationErrors\<close> once the header, the
  rows and the cross-metric checks have been gone through.
\<close>

definition collectRows :: "string list \<Rightarrow> string list \<Rightarrow> jsobj list \<times> validationError list" where
  "collectRows rawHeaders dataLines =
     foldl (rowStep rawHeaders) ([], headerErrors (tl rawHeaders)) (enumerate 0 dataLines)"

definition collect :: "string list \<Rightarrow> string list \<Rightarrow> jsobj list \<times> validationError list" where
  "collect rawHeaders dataLines =
     (case collectRows rawHeaders dataLines of
        (dailyData, validationErrors) \<Rightarrow>
          (dailyData, validationErrors @ concat (map rangeChecks dailyData)))"

text \<open>Lines 107 to 113: what is thrown when errors were recorded.\<close>

definition validationFailure :: "validationError list \<Rightarrow> parseError" where
  "validationFailure validationErrors =
     ValidationFailed (take 5 validationErrors)
       (if length validationErrors > 5 then Some (length validationErrors - 5) else None)"

text \<open>
  Lines 17 to 105: the header checks, which throw at once, and then the accumulation.
  The result holds the metric names of the header, \<^verbatim>\<open>dailyData\<close> and
  \<^verbatim>\<open>validationErrors\<close> as they stand when line 107 is reached.
\<close>

definition readRows :: "string \<Rightarrow> parseError + string list \<times> jsobj list \<times> validationError list" where
  "readRows text =
     (case csvLines text of
        [] \<Rightarrow> Inl EmptyOrInvalid
      | [header] \<Rightarrow> Inl EmptyOrInvalid
      | header # dataLines \<Rightarrow>
          (case parts header of
             [] \<Rightarrow> Inl InvalidHeader
           | first # metricNames \<Rightarrow>
               if toUpperCase first \<noteq> ''DATE'' then Inl InvalidHeader
               else if metricNames = [] then Inl NoMetricColumns
               else
                 (case collect (first # metricNames) dataLines of
                    (dailyData, validationErrors) \<Rightarrow>
                      Inr (metricNames, dailyData, validationErrors))))"

text \<open>
  Lines 17 to 117: the validator. Its result is the metric names of the header and the
  validated daily entries, or the error thrown.
\<close>

definition parseDaily :: "string \<Rightarrow> parseError + string list \<times> jsobj list" where
  "parseDaily text =
     (case readRows text of
        Inl err \<Rightarrow> Inl err
      | Inr (metricNames, dailyData, validationErrors) \<Rightarrow>
          if validationErrors \<noteq> [] then Inl (validationFailure validationErrors)
          else if dailyData = [] then Inl NoValidRows
          else Inr (metricNames, dailyData))"

section \<open>\<^verbatim>\<open>parseCSV\<close>: aggregation into shots\<close>

text \<open>\<^verbatim>\<open>xs.slice(a, b)\<close> for indices \<open>0 \<le> a \<le> b\<close>.\<close>

definition slice :: "'a list \<Rightarrow> nat \<Rightarrow> nat \<Rightarrow> 'a list" where
  "slice xs a b = take (b - a) (drop a xs)"

text \<open>Lines 139 and 140: the \<^verbatim>\<open>reduce\<close> over the window, divided by its length.\<close>

definition windowAverage :: "jsobj list \<Rightarrow> string \<Rightarrow> real" where
  "windowAverage daysInShot metricName =
     foldl (\<lambda>acc day. acc + nullish (day metricName) 0) 0 daysInShot / real (length daysInShot)"

text \<open>
  Lines 124 to 141: the shot of the window starting at index \<open>i\<close>. The five fields are
  assigned first; then every metric name of the header is assigned, whatever its name.
\<close>

definition shotBase :: "FunnelStageContext \<Rightarrow> nat \<Rightarrow> jsobj list \<Rightarrow> jsobj" where
  "shotBase stage i daysInShot =
     (((((Map.empty
        (''shotId'' \<mapsto> Str (stageName stage @ ''-Shot '' @ showNat (i div 3 + 1))))
        (''startDate'' := hd daysInShot ''date''))
        (''endDate'' := last daysInShot ''date''))
        (''numDaysInShot'' \<mapsto> Num (real (length daysInShot))))
        (''funnelStage'' \<mapsto> Str (stageName stage)))"

definition makeShot :: "string list \<Rightarrow> FunnelStageContext \<Rightarrow> nat \<Rightarrow> jsobj list \<Rightarrow> jsobj" where
  "makeShot metricNames stage i daysInShot =
     foldl (\<lambda>shotEntry metricName. shotEntry(metricName \<mapsto> Num (windowAverage daysInShot metricName)))
       (shotBase stage i daysInShot) metricNames"

text \<open>Lines 123 to 144: the loop, \<open>i\<close> advancing by three.\<close>

function shotLoop ::
  "string list \<Rightarrow> FunnelStageContext \<Rightarrow> jsobj list \<Rightarrow> nat \<Rightarrow> jsobj list \<Rightarrow> jsobj list" where
  "shotLoop metricNames stage dailyData i shotData =
     (if i < length dailyData then
        (if slice dailyData i (i + 3) = [] then
           shotLoop metricNames stage dailyData (i + 3) shotData
         else
           shotLoop metricNames stage dailyData (i + 3)
             (shotData @ [makeShot metricNames stage i (slice dailyData i (i + 3))]))
      else shotData)"
  by pat_completeness auto

termination
  by (relation "measure (\<lambda>(metricNames, stage, dailyData, i, shotData). length dailyData - i)") auto

declare shotLoop.simps [simp del]

text \<open>Lines 119 to 148.\<close>

definition aggregateShots :: "string list \<Rightarrow> FunnelStageContext \<Rightarrow> jsobj list \<Rightarrow> parseError + jsobj list" where
  "aggregateShots metricNames stage dailyData =
     (case shotLoop metricNames stage dailyData 0 [] of
        [] \<Rightarrow> Inl NoShots
      | shot # shots \<Rightarrow> Inr (shot # shots))"

text \<open>Lines 17 to 148: the \<^verbatim>\<open>try\<close> block up to the merge.\<close>

definition parseShots :: "string \<Rightarrow> FunnelStageContext \<Rightarrow> parseError + jsobj list" where
  "parseShots text stage =
     (case parseDaily text of
        Inl err \<Rightarrow> Inl err
      | Inr (metricNames, dailyData) \<Rightarrow> aggregateShots metricNames stage dailyData)"

section \<open>\<^verbatim>\<open>parseCSV\<close>: the per-stage store\<close>

text \<open>
  The component's state. An entry of \<open>errors\<close> is \<open>Some None\<close> for the empty message
  that a successful upload stores. The state is passed from one call to the next: each
  upload is taken to see the store as the previous one left it.
\<close>

record UploadState =
  errors :: "FunnelStageContext \<Rightarrow> parseError option option"
  uploadedStages :: "FunnelStageContext \<Rightarrow> bool option"
  accumulatedShots :: "jsobj list"

text \<open>Lines 151 to 154.\<close>

definition mergeShots :: "jsobj list \<Rightarrow> FunnelStageContext \<Rightarrow> jsobj list \<Rightarrow> jsobj list" where
  "mergeShots accumulated stage shotData =
     filter (\<lambda>s. s ''funnelStage'' \<noteq> Some (Str (stageName stage))) accumulated @ shotData"

text \<open>Lines 150 to 160, given the shots of a parse that succeeded.\<close>

definition submit :: "FunnelStageContext \<Rightarrow> jsobj list \<Rightarrow> UploadState \<Rightarrow> UploadState" where
  "submit stage shotData st =
     st\<lparr>accumulatedShots := mergeShots (accumulatedShots st) stage shotData,
        uploadedStages := (uploadedStages st)(stage \<mapsto> True),
        errors := (errors st)(stage \<mapsto> None)\<rparr>"

text \<open>
  Lines 15 to 165. The second component is the argument of \<^verbatim>\<open>onDataLoaded\<close>, or
  \<open>None\<close> when it is not called.
\<close>

definition parseCSV :: "string \<Rightarrow> FunnelStageContext \<Rightarrow> UploadState \<Rightarrow> UploadState \<times> jsobj list option" where
  "parseCSV text stage st =
     (case parseShots text stage of
        Inr shotData \<Rightarrow> (submit stage shotData st, Some (accumulatedShots (submit stage shotData st)))
      | Inl err \<Rightarrow> (st\<lparr>errors := (errors st)(stage \<mapsto> Some err)\<rparr>, None))"

text \<open>Lines 277 to 283: the button that removes a stage's data.\<close>

definition clearStage :: "FunnelStageContext \<Rightarrow> UploadState \<Rightarrow> UploadState \<times> jsobj list option" where
  "clearStage stage st =
     (let newAccumulated = filter (\<lambda>s. s ''funnelStage'' \<noteq> Some (Str (stageName stage))) (accumulatedShots st)
      in (st\<lparr>accumulatedShots := newAccumulated,
             uploadedStages := (uploadedStages st)(stage \<mapsto> False)\<rparr>,
          Some newAccumulated))"

section \<open>\<^verbatim>\<open>calculateMetrics\<close>\<close>

text \<open>
  The running sums of lines 19 to 33. The seven that the source calls
  \<^verbatim>\<open>totalAdSpent\<close> to \<^verbatim>\<open>totalICs\<close> are \<open>sumAdSpent\<close> to \<open>sumICs\<close> here: the
  fields of the result have the source's names.
\<close>

record Sums =
  sumAdSpent :: real
  sumConversions :: real
  sumLinkClicks :: real
  sumReach :: real
  sumLPViews :: real
  sumATCs :: real
  sumICs :: real
  sumCPM :: real
  sumCTR :: real
  sumROAS :: real
  sumCPA :: real
  sumAdFrequency :: real
  totalDaysAnalyzed :: real

definition zeroSums :: Sums where
  "zeroSums =
     \<lparr>sumAdSpent = 0, sumConversions = 0, sumLinkClicks = 0, sumReach = 0, sumLPViews = 0,
      sumATCs = 0, sumICs = 0, sumCPM = 0, sumCTR = 0, sumROAS = 0, sumCPA = 0,
      sumAdFrequency = 0, totalDaysAnalyzed = 0\<rparr>"

text \<open>Lines 36 to 55: the body of the \<^verbatim>\<open>forEach\<close>.\<close>

definition addShot :: "Sums \<Rightarrow> jsobj \<Rightarrow> Sums" where
  "addShot a shot =
     (let daysInShot = nullish (shot ''numDaysInShot'') 3 in
      \<lparr>sumAdSpent = sumAdSpent a + nullish (shot ''Ad spent'') 0 * daysInShot,
       sumConversions = sumConversions a + nullish (shot ''Conversions'') 0 * daysInShot,
       sumLinkClicks = sumLinkClicks a + nullish (shot ''LINK CLICKS'') 0 * daysInShot,
       sumReach = sumReach a + nullish (shot ''REACH'') 0 * daysInShot,
       sumLPViews = sumLPViews a + nullish (shot ''Landing page views'') 0 * daysInShot,
       sumATCs = sumATCs a + nullish (shot ''Add to carts'') 0 * daysInShot,
       sumICs = sumICs a + nullish (shot ''initiate checkout'') 0 * daysInShot,
       sumCPM = sumCPM a + nullish (shot ''CPM'') 0,
       sumCTR = sumCTR a + nullish (shot ''CTR'') 0,
       sumROAS = sumROAS a + nullish (shot ''ROAS'') 0,
       sumCPA = sumCPA a + nullish (shot ''CPA'') 0,
       sumAdFrequency = sumAdFrequency a + nullish (shot ''AD FREQUENCY'') 0,
       totalDaysAnalyzed = totalDaysAnalyzed a + daysInShot\<rparr>)"

text \<open>Lines 18 to 86.\<close>

definition calculateMetrics :: "jsobj list \<Rightarrow> AggregatedMetrics" where
  "calculateMetrics data =
     (let a = foldl addShot zeroSums data;
          totalShotsCount = length data;
          avgCPM' = (if totalShotsCount > 0 then sumCPM a / real totalShotsCount else 0);
          avgCTR' = (if totalShotsCount > 0 then sumCTR a / real totalShotsCount else 0);
          avgROAS' = (if totalShotsCount > 0 then sumROAS a / real totalShotsCount else 0);
          avgCPA' = (if totalShotsCount > 0 then sumCPA a / real totalShotsCount else 0);
          avgAdFrequency' =
            (if totalShotsCount > 0 then sumAdFrequency a / real totalShotsCount else 0);
          cpc' = (if sumLinkClicks a > 0 then sumAdSpent a / sumLinkClicks a else 0);
          totalImpressions' =
            (if avgCPM' > 0 \<and> sumAdSpent a > 0 then (sumAdSpent a / avgCPM') * 1000 else 0)
      in \<lparr>totalAdSpent = sumAdSpent a,
          totalConversions = sumConversions a,
          totalLinkClicks = sumLinkClicks a,
          totalReach = sumReach a,
          totalLPViews = sumLPViews a,
          totalATCs = sumATCs a,
          totalICs = sumICs a,
          avgCPM = avgCPM',
          avgCTR = avgCTR',
          avgROAS = avgROAS',
          avgCPA = avgCPA',
          avgAdFrequency = avgAdFrequency',
          cpc = cpc',
          totalImpressions = totalImpressions'\<rparr>)"

section \<open>Notions the claims are stated with\<close>

text \<open>The \<open>k\<close>-th window of three consecutive entries, and the number of windows.\<close>

definition window :: "'a list \<Rightarrow> nat \<Rightarrow> 'a list" where
  "window xs k = take 3 (drop (3 * k) xs)"

definition shotCount :: "nat \<Rightarrow> nat" where
  "shotCount n = (n + 2) div 3"

text \<open>
  The store is one list of shots, each carrying its stage: the shots of one stage, and
  the rest.
\<close>

definition shotsOfStage :: "FunnelStageContext \<Rightarrow> jsobj list \<Rightarrow> jsobj list" where
  "shotsOfStage stage shots =
     filter (\<lambda>s. s ''funnelStage'' = Some (Str (stageName stage))) shots"

definition otherShots :: "FunnelStageContext \<Rightarrow> jsobj list \<Rightarrow> jsobj list" where
  "otherShots stage shots =
     filter (\<lambda>s. s ''funnelStage'' \<noteq> Some (Str (stageName stage))) shots"

text \<open>
  A data line yields a numeric field when it has the header's column count and
  \<^verbatim>\<open>parseFloat\<close> reads a number from one of its metric cells; \<open>rowEntry\<close> is the
  entry built from the line.
\<close>

definition yieldsNumeric :: "string list \<Rightarrow> string \<Rightarrow> bool" where
  "yieldsNumeric rawHeaders line =
     (length (parts line) = length rawHeaders \<and>
      list_ex (\<lambda>p. parseFloat p \<noteq> None) (tl (parts line)))"

definition rowEntry :: "string list \<Rightarrow> string \<Rightarrow> jsobj" where
  "rowEntry rawHeaders line =
     (case parts line of
        [] \<Rightarrow> Map.empty
      | dateStr # cells \<Rightarrow>
          fst (foldl (fieldStep dateStr) ([''date'' \<mapsto> Str dateStr], False, [])
                 (zip (tl rawHeaders) cells)))"

text \<open>The component's state before any upload (the \<^verbatim>\<open>useState\<close> initial values).\<close>

definition initialState :: UploadState where
  "initialState =
     \<lparr>errors = (\<lambda>stage. None), uploadedStages = (\<lambda>stage. None), accumulatedShots = []\<rparr>"

section \<open>Concrete inputs\<close>

text \<open>
  The template the component offers for download (lines 184 to 190): its header and its
  three data rows, the entries the validator builds from them and the shot the
  aggregator builds from those.
\<close>

definition templateHeaders :: string where
  "templateHeaders =
     ''DATE,CPM,CTR,REACH,LINK CLICKS,Landing page views,Add to carts,initiate checkout,Conversions,CPA,ROAS,Ad spent,AD FREQUENCY''"

definition templateData1 :: string where
  "templateData1 = ''1 Mar,10.50,0.02,50000,1000,500,50,30,10,15.00,3.50,150.00,1.8''"

definition templateData2 :: string where
  "templateData2 = ''2 Mar,11.20,0.025,55000,1375,600,65,40,12,12.50,4.00,150.00,2.1''"

definition templateData3 :: string where
  "templateData3 = ''3 Mar,9.80,0.018,48000,864,450,40,25,8,18.75,3.20,150.00,1.9''"

definition templateCsv :: string where
  "templateCsv =
     templateHeaders @ [CHR 0x0A] @ templateData1 @ [CHR 0x0A] @ templateData2 @ [CHR 0x0A] @
     templateData3"

definition templateMetricNames :: "string list" where
  "templateMetricNames =
     [''CPM'', ''CTR'', ''REACH'', ''LINK CLICKS'', ''Landing page views'', ''Add to carts'',
      ''initiate checkout'', ''Conversions'', ''CPA'', ''ROAS'', ''Ad spent'', ''AD FREQUENCY'']"

definition templateDay1 :: jsobj where
  "templateDay1 =
     [''date'' \<mapsto> Str ''1 Mar'', ''CPM'' \<mapsto> Num 10.5, ''CTR'' \<mapsto> Num 0.02,
      ''REACH'' \<mapsto> Num 50000, ''LINK CLICKS'' \<mapsto> Num 1000, ''Landing page views'' \<mapsto> Num 500,
      ''Add to carts'' \<mapsto> Num 50, ''initiate checkout'' \<mapsto> Num 30, ''Conversions'' \<mapsto> Num 10,
      ''CPA'' \<mapsto> Num 15, ''ROAS'' \<mapsto> Num 3.5, ''Ad spent'' \<mapsto> Num 150,
      ''AD FREQUENCY'' \<mapsto> Num 1.8]"

definition templateDay2 :: jsobj where
  "templateDay2 =
     [''date'' \<mapsto> Str ''2 Mar'', ''CPM'' \<mapsto> Num 11.2, ''CTR'' \<mapsto> Num 0.025,
      ''REACH'' \<mapsto> Num 55000, ''LINK CLICKS'' \<mapsto> Num 1375, ''Landing page views'' \<mapsto> Num 600,
      ''Add to carts'' \<mapsto> Num 65, ''initiate checkout'' \<mapsto> Num 40, ''Conversions'' \<mapsto> Num 12,
      ''CPA'' \<mapsto> Num 12.5, ''ROAS'' \<mapsto> Num 4, ''Ad spent'' \<mapsto> Num 150,
      ''AD FREQUENCY'' \<mapsto> Num 2.1]"

definition templateDay3 :: jsobj where
  "templateDay3 =
     [''date'' \<mapsto> Str ''3 Mar'', ''CPM'' \<mapsto> Num 9.8, ''CTR'' \<mapsto> Num 0.018,
      ''REACH'' \<mapsto> Num 48000, ''LINK CLICKS'' \<mapsto> Num 864, ''Landing page views'' \<mapsto> Num 450,
      ''Add to carts'' \<mapsto> Num 40, ''initiate checkout'' \<mapsto> Num 25, ''Conversions'' \<mapsto> Num 8,
      ''CPA'' \<mapsto> Num 18.75, ''ROAS'' \<mapsto> Num 3.2, ''Ad spent'' \<mapsto> Num 150,
      ''AD FREQUENCY'' \<mapsto> Num 1.9]"

definition templateShot :: jsobj where
  "templateShot = makeShot templateMetricNames TOF 0 [templateDay1, templateDay2, templateDay3]"

text \<open>
  The template's header with two more columns, named \<^verbatim>\<open>numDaysInShot\<close> and
  \<^verbatim>\<open>shotId\<close>, and its first row with the values 7 and 5 in them.
\<close>

definition extraColumnsCsv :: string where
  "extraColumnsCsv =
     templateHeaders @ '',numDaysInShot,shotId'' @ [CHR 0x0A] @ templateData1 @ '',7,5''"

definition extraColumnsMetricNames :: "string list" where
  "extraColumnsMetricNames = templateMetricNames @ [''numDaysInShot'', ''shotId'']"

definition extraColumnsDay :: jsobj where
  "extraColumnsDay = templateDay1(''numDaysInShot'' \<mapsto> Num 7, ''shotId'' \<mapsto> Num 5)"

definition extraColumnsShot :: jsobj where
  "extraColumnsShot = makeShot extraColumnsMetricNames TOF 0 [extraColumnsDay]"





text \<open>
  The template's header in upper case, and its first row with an ad spend of
  \<open>- 150\<close>.
\<close>

definition upperCaseCsv :: string where
  "upperCaseCsv =
     ''DATE,CPM,CTR,REACH,LINK CLICKS,LANDING PAGE VIEWS,ADD TO CARTS,INITIATE CHECKOUT,CONVERSIONS,CPA,ROAS,AD SPENT,AD FREQUENCY'' @
     [CHR 0x0A] @ ''1 Mar,10.50,0.02,50000,1000,500,50,30,10,15.00,3.50,-150.00,1.8''"

definition upperCaseMetricNames :: "string list" where
  "upperCaseMetricNames =
     [''CPM'', ''CTR'', ''REACH'', ''LINK CLICKS'', ''LANDING PAGE VIEWS'', ''ADD TO CARTS'',
      ''INITIATE CHECKOUT'', ''CONVERSIONS'', ''CPA'', ''ROAS'', ''AD SPENT'', ''AD FREQUENCY'']"

definition upperCaseDay :: jsobj where
  "upperCaseDay =
     [''date'' \<mapsto> Str ''1 Mar'', ''CPM'' \<mapsto> Num 10.5, ''CTR'' \<mapsto> Num 0.02,
      ''REACH'' \<mapsto> Num 50000, ''LINK CLICKS'' \<mapsto> Num 1000, ''LANDING PAGE VIEWS'' \<mapsto> Num 500,
      ''ADD TO CARTS'' \<mapsto> Num 50, ''INITIATE CHECKOUT'' \<mapsto> Num 30, ''CONVERSIONS'' \<mapsto> Num 10,
      ''CPA'' \<mapsto> Num 15, ''ROAS'' \<mapsto> Num 3.5, ''AD SPENT'' \<mapsto> Num (- 150),
      ''AD FREQUENCY'' \<mapsto> Num 1.8]"

definition upperCaseShot :: jsobj where
  "upperCaseShot = makeShot upperCaseMetricNames TOF 0 [upperCaseDay]"

text \<open>Shots given to \<^verbatim>\<open>calculateMetrics\<close> directly.\<close>

definition undatedShot :: jsobj where
  "undatedShot = [''Ad spent'' \<mapsto> Num 100, ''Conversions'' \<mapsto> Num 4]"

definition plainShot :: jsobj where
  "plainShot =
     [''numDaysInShot'' \<mapsto> Num 3, ''CPM'' \<mapsto> Num 10, ''Ad spent'' \<mapsto> Num 150,
      ''LINK CLICKS'' \<mapsto> Num 50]"

definition negativeCpmShot :: jsobj where
  "negativeCpmShot =
     [''numDaysInShot'' \<mapsto> Num 3, ''CPM'' \<mapsto> Num (- 10), ''Ad spent'' \<mapsto> Num 150]"

text \<open>A store holding one shot of the top and one of the middle stage, and two uploads.\<close>

definition oldTofShot :: jsobj where
  "oldTofShot = [''shotId'' \<mapsto> Str ''TOF-Shot 1'', ''funnelStage'' \<mapsto> Str ''TOF'', ''CPM'' \<mapsto> Num 1]"

definition mofShot :: jsobj where
  "mofShot = [''shotId'' \<mapsto> Str ''MOF-Shot 1'', ''funnelStage'' \<mapsto> Str ''MOF'', ''CPM'' \<mapsto> Num 2]"

definition tofShotA :: jsobj where
  "tofShotA = [''shotId'' \<mapsto> Str ''TOF-Shot 1'', ''funnelStage'' \<mapsto> Str ''TOF'', ''CPM'' \<mapsto> Num 3]"

definition tofShotB :: jsobj where
  "tofShotB = [''shotId'' \<mapsto> Str ''TOF-Shot 1'', ''funnelStage'' \<mapsto> Str ''TOF'', ''CPM'' \<mapsto> Num 4]"

definition twoStageState :: UploadState where
  "twoStageState = initialState\<lparr>accumulatedShots := [oldTofShot, mofShot]\<rparr>"

text \<open>
  A file whose header lacks eleven of the required columns and whose six rows hold a
  word where a number is expected: seven recorded errors.
\<close>

definition sixBadRowsCsv :: string where
  "sixBadRowsCsv =
     ''DATE,CPM'' @ [CHR 0x0A] @ ''a,x'' @ [CHR 0x0A] @ ''b,x'' @ [CHR 0x0A] @ ''c,x'' @ [CHR 0x0A] @
     ''d,x'' @ [CHR 0x0A] @ ''e,x'' @ [CHR 0x0A] @ ''f,x''"

definition sixBadRowsErrors :: "validationError list" where
  "sixBadRowsErrors =
     [MissingColumns [''Ctr'', ''Reach'', ''Link clicks'', ''Landing page views'', ''Add to carts'',
        ''Initiate checkout'', ''Conversions'', ''Cpa'', ''Roas'', ''Ad spent'', ''Ad frequency''],
      ExpectedNumber ''a'' ''CPM'' ''x'', ExpectedNumber ''b'' ''CPM'' ''x'',
      ExpectedNumber ''c'' ''CPM'' ''x'', ExpectedNumber ''d'' ''CPM'' ''x'',
      ExpectedNumber ''e'' ''CPM'' ''x'', ExpectedNumber ''f'' ''CPM'' ''x'']"

section \<open>The metrics aggregation engine\<close>

text \<open>What the \<^verbatim>\<open>forEach\<close> leaves in each running sum.\<close>

lemma foldl_addShot_AdSpent:
  "sumAdSpent (foldl addShot a data) =
     sumAdSpent a + (\<Sum>shot\<leftarrow>data. nullish (shot ''Ad spent'') 0 * nullish (shot ''numDaysInShot'') 3)"
  by (induction data arbitrary: a) (simp_all add: addShot_def Let_def)

lemma foldl_addShot_Conversions:
  "sumConversions (foldl addShot a data) =
     sumConversions a + (\<Sum>shot\<leftarrow>data. nullish (shot ''Conversions'') 0 * nullish (shot ''numDaysInShot'') 3)"
  by (induction data arbitrary: a) (simp_all add: addShot_def Let_def)

lemma foldl_addShot_LinkClicks:
  "sumLinkClicks (foldl addShot a data) =
     sumLinkClicks a + (\<Sum>shot\<leftarrow>data. nullish (shot ''LINK CLICKS'') 0 * nullish (shot ''numDaysInShot'') 3)"
  by (induction data arbitrary: a) (simp_all add: addShot_def Let_def)

lemma foldl_addShot_Reach:
  "sumReach (foldl addShot a data) =
     sumReach a + (\<Sum>shot\<leftarrow>data. nullish (shot ''REACH'') 0 * nullish (shot ''numDaysInShot'') 3)"
  by (induction data arbitrary: a) (simp_all add: addShot_def Let_def)

lemma foldl_addShot_LPViews:
  "sumLPViews (foldl addShot a data) =
     sumLPViews a +
     (\<Sum>shot\<leftarrow>data. nullish (shot ''Landing page views'') 0 * nullish (shot ''numDaysInShot'') 3)"
  by (induction data arbitrary: a) (simp_all add: addShot_def Let_def)

lemma foldl_addShot_ATCs:
  "sumATCs (foldl addShot a data) =
     sumATCs a + (\<Sum>shot\<leftarrow>data. nullish (shot ''Add to carts'') 0 * nullish (shot ''numDaysInShot'') 3)"
  by (induction data arbitrary: a) (simp_all add: addShot_def Let_def)

lemma foldl_addShot_ICs:
  "sumICs (foldl addShot a data) =
     sumICs a +
     (\<Sum>shot\<leftarrow>data. nullish (shot ''initiate checkout'') 0 * nullish (shot ''numDaysInShot'') 3)"
  by (induction data arbitrary: a) (simp_all add: addShot_def Let_def)

lemma foldl_addShot_CPM:
  "sumCPM (foldl addShot a data) = sumCPM a + (\<Sum>shot\<leftarrow>data. nullish (shot ''CPM'') 0)"
  by (induction data arbitrary: a) (simp_all add: addShot_def Let_def)

text \<open>
  Claim C3. For every shot sequence, each of the seven totals of
  \<^verbatim>\<open>calculateMetrics\<close> (ad spend, conversions, link clicks, reach, landing-page
  views, add-to-carts, checkout initiations) is the sum over the shots of the shot's
  value of that metric times the shot's \<^verbatim>\<open>numDaysInShot\<close>, a shot without
  \<^verbatim>\<open>numDaysInShot\<close> counting for three days (and one without the metric for zero).
\<close>

theorem calculateMetrics_totals:
  "totalAdSpent (calculateMetrics data) =
     (\<Sum>shot\<leftarrow>data. nullish (shot ''Ad spent'') 0 * nullish (shot ''numDaysInShot'') 3) \<and>
   totalConversions (calculateMetrics data) =
     (\<Sum>shot\<leftarrow>data. nullish (shot ''Conversions'') 0 * nullish (shot ''numDaysInShot'') 3) \<and>
   totalLinkClicks (calculateMetrics data) =
     (\<Sum>shot\<leftarrow>data. nullish (shot ''LINK CLICKS'') 0 * nullish (shot ''numDaysInShot'') 3) \<and>
   totalReach (calculateMetrics data) =
     (\<Sum>shot\<leftarrow>data. nullish (shot ''REACH'') 0 * nullish (shot ''numDaysInShot'') 3) \<and>
   totalLPViews (calculateMetrics data) =
     (\<Sum>shot\<leftarrow>data. nullish (shot ''Landing page views'') 0 * nullish (shot ''numDaysInShot'') 3) \<and>
   totalATCs (calculateMetrics data) =
     (\<Sum>shot\<leftarrow>data. nullish (shot ''Add to carts'') 0 * nullish (shot ''numDaysInShot'') 3) \<and>
   totalICs (calculateMetrics data) =
     (\<Sum>shot\<leftarrow>data. nullish (shot ''initiate checkout'') 0 * nullish (shot ''numDaysInShot'') 3)"
proof -
  have z: "sumAdSpent zeroSums = 0" "sumConversions zeroSums = 0" "sumLinkClicks zeroSums = 0"
    "sumReach zeroSums = 0" "sumLPViews zeroSums = 0" "sumATCs zeroSums = 0" "sumICs zeroSums = 0"
    by (simp_all add: zeroSums_def)
  have "totalAdSpent (calculateMetrics data) = sumAdSpent (foldl addShot zeroSums data)"
    and "totalConversions (calculateMetrics data) = sumConversions (foldl addShot zeroSums data)"
    and "totalLinkClicks (calculateMetrics data) = sumLinkClicks (foldl addShot zeroSums data)"
    and "totalReach (calculateMetrics data) = sumReach (foldl addShot zeroSums data)"
    and "totalLPViews (calculateMetrics data) = sumLPViews (foldl addShot zeroSums data)"
    and "totalATCs (calculateMetrics data) = sumATCs (foldl addShot zeroSums data)"
    and "totalICs (calculateMetrics data) = sumICs (foldl addShot zeroSums data)"
    by (simp_all add: calculateMetrics_def Let_def)
  then show ?thesis
    by (simp only: foldl_addShot_AdSpent foldl_addShot_Conversions foldl_addShot_LinkClicks
        foldl_addShot_Reach foldl_addShot_LPViews foldl_addShot_ATCs foldl_addShot_ICs z) simp
qed

text \<open>
  At a shot that has no \<^verbatim>\<open>numDaysInShot\<close>, an ad spend of 100 and 4 conversions a
  day: three days are counted.
\<close>

theorem calculateMetrics_totals_witness:
  "undatedShot ''numDaysInShot'' = None \<and>
   totalAdSpent (calculateMetrics [undatedShot]) = 300 \<and>
   totalConversions (calculateMetrics [undatedShot]) = 12 \<and>
   totalReach (calculateMetrics [undatedShot]) = 0"
  using calculateMetrics_totals [of "[undatedShot]"] by (simp add: undatedShot_def)

text \<open>
  Claim C6. On the empty shot sequence \<^verbatim>\<open>calculateMetrics\<close> returns a value (the
  function is total: nothing is thrown) whose fourteen fields are all zero.
\<close>

theorem calculateMetrics_empty:
  "calculateMetrics [] =
     \<lparr>totalAdSpent = 0, totalConversions = 0, totalLinkClicks = 0, totalReach = 0,
      totalLPViews = 0, totalATCs = 0, totalICs = 0, avgCPM = 0, avgCTR = 0, avgROAS = 0,
      avgCPA = 0, avgAdFrequency = 0, cpc = 0, totalImpressions = 0\<rparr>"
  by (simp add: calculateMetrics_def zeroSums_def)

text \<open>
  Claim C9 as stated, refuted. For one shot of three days with a cost-per-mille of
  \<open>- 10\<close> and an ad spend of 150 a day, the average cost-per-mille and the total ad
  spend are both non-zero, and yet the estimated impressions are 0, not the quotient
  times 1000. A negative cost-per-mille passes the validator, which does not check it.
\<close>

theorem derived_values_counterexample:
  "avgCPM (calculateMetrics [negativeCpmShot]) \<noteq> 0 \<and>
   totalAdSpent (calculateMetrics [negativeCpmShot]) \<noteq> 0 \<and>
   totalImpressions (calculateMetrics [negativeCpmShot]) \<noteq>
     totalAdSpent (calculateMetrics [negativeCpmShot]) / avgCPM (calculateMetrics [negativeCpmShot]) * 1000"
  by (simp add: calculateMetrics_def Let_def addShot_def zeroSums_def negativeCpmShot_def)

text \<open>
  Claim C9, amended. For every shot sequence, the cost-per-click is the total ad spend
  divided by the total link clicks when the total link clicks are positive, and 0
  otherwise; the estimated total impressions are the total ad spend divided by the
  average cost-per-mille, times 1000, when both are positive, and 0 otherwise.
\<close>

theorem derived_values:
  "cpc (calculateMetrics data) =
     (if totalLinkClicks (calculateMetrics data) > 0
      then totalAdSpent (calculateMetrics data) / totalLinkClicks (calculateMetrics data)
      else 0) \<and>
   totalImpressions (calculateMetrics data) =
     (if avgCPM (calculateMetrics data) > 0 \<and> totalAdSpent (calculateMetrics data) > 0
      then (totalAdSpent (calculateMetrics data) / avgCPM (calculateMetrics data)) * 1000
      else 0)"
  by (simp add: calculateMetrics_def Let_def)

text \<open>
  At a shot of three days with a cost-per-mille of 10, an ad spend of 150 and 50 link
  clicks a day, and at the shot with the negative cost-per-mille.
\<close>

theorem derived_values_witness:
  "cpc (calculateMetrics [plainShot]) = 3 \<and>
   totalImpressions (calculateMetrics [plainShot]) = 45000 \<and>
   cpc (calculateMetrics [negativeCpmShot]) = 0 \<and>
   totalImpressions (calculateMetrics [negativeCpmShot]) = 0"
  using derived_values [of "[plainShot]"] derived_values [of "[negativeCpmShot]"]
  by (simp add: calculateMetrics_def Let_def addShot_def zeroSums_def plainShot_def
      negativeCpmShot_def)

section \<open>The per-stage store\<close>

lemma stageName_inject: "stageName a = stageName b \<longleftrightarrow> a = b"
  by (cases a; cases b) simp_all

lemma shotsOfStage_tagged:
  "list_all (\<lambda>s. s ''funnelStage'' = Some (Str (stageName stage))) shots \<Longrightarrow>
   shotsOfStage stage shots = shots"
  by (induction shots) (simp_all add: shotsOfStage_def)

lemma otherShots_tagged:
  "list_all (\<lambda>s. s ''funnelStage'' = Some (Str (stageName stage))) shots \<Longrightarrow>
   otherShots stage shots = []"
  by (induction shots) (simp_all add: otherShots_def)

lemma shotsOfStage_tagged_other:
  "list_all (\<lambda>s. s ''funnelStage'' = Some (Str (stageName stage))) shots \<Longrightarrow>
   stage' \<noteq> stage \<Longrightarrow> shotsOfStage stage' shots = []"
  by (induction shots) (simp_all add: shotsOfStage_def stageName_inject)

lemma shotsOfStage_otherShots:
  "shotsOfStage stage (otherShots stage shots) = []"
  by (induction shots) (simp_all add: shotsOfStage_def otherShots_def)

lemma shotsOfStage_otherShots_other:
  "stage' \<noteq> stage \<Longrightarrow> shotsOfStage stage' (otherShots stage shots) = shotsOfStage stage' shots"
  by (induction shots) (simp_all add: shotsOfStage_def otherShots_def stageName_inject)

lemma otherShots_idem: "otherShots stage (otherShots stage shots) = otherShots stage shots"
  by (simp add: otherShots_def)

lemma shotsOfStage_append:
  "shotsOfStage stage (xs @ ys) = shotsOfStage stage xs @ shotsOfStage stage ys"
  by (simp add: shotsOfStage_def)

lemma otherShots_append: "otherShots stage (xs @ ys) = otherShots stage xs @ otherShots stage ys"
  by (simp add: otherShots_def)

lemma accumulatedShots_submit:
  "accumulatedShots (submit stage shotData st) = otherShots stage (accumulatedShots st) @ shotData"
  by (simp add: submit_def mergeShots_def otherShots_def)

lemma clearStage_removes:
  "accumulatedShots (fst (clearStage stage st)) = otherShots stage (accumulatedShots st) \<and>
   snd (clearStage stage st) = Some (otherShots stage (accumulatedShots st))"
  by (simp add: clearStage_def otherShots_def Let_def)

text \<open>A parse that succeeds submits its shots and hands the merged list on.\<close>

lemma parseCSV_success:
  "parseShots text stage = Inr shotData \<Longrightarrow>
   parseCSV text stage st =
     (submit stage shotData st, Some (otherShots stage (accumulatedShots st) @ shotData))"
  by (simp add: parseCSV_def accumulatedShots_submit)

text \<open>
  The merge of lines 151 to 154 tells the stages apart by the \<^verbatim>\<open>funnelStage\<close> field
  of the shots. Let every shot of \<open>A\<close> carry the stage it is submitted for. Then the
  store's shots of that stage are exactly \<open>A\<close> afterwards, whatever it held for the stage
  before; the shots of every other stage are as before; and submitting \<open>B\<close> for the same
  stage next leaves the store as if only \<open>B\<close> had been submitted. The shots that
  \<^verbatim>\<open>parseCSV\<close> submits carry their stage when the header has no column named
  \<^verbatim>\<open>funnelStage\<close> (\<open>parseShots_tagged\<close> below), and not otherwise: see the
  section on metric columns named like a shot's own fields.
\<close>

lemma submit_replaces_stage:
  assumes "list_all (\<lambda>s. s ''funnelStage'' = Some (Str (stageName stage))) A"
    and "stage' \<noteq> stage"
  shows "shotsOfStage stage (accumulatedShots (submit stage A st)) = A \<and>
         shotsOfStage stage' (accumulatedShots (submit stage A st)) =
           shotsOfStage stage' (accumulatedShots st) \<and>
         otherShots stage (accumulatedShots (submit stage A st)) =
           otherShots stage (accumulatedShots st) \<and>
         submit stage B (submit stage A st) = submit stage B st \<and>
         accumulatedShots (submit stage B (submit stage A st)) =
           otherShots stage (accumulatedShots st) @ B"
proof -
  have own: "shotsOfStage stage (accumulatedShots (submit stage A st)) = A"
    by (simp add: accumulatedShots_submit shotsOfStage_append shotsOfStage_otherShots
        shotsOfStage_tagged [OF assms(1)])
  have other: "shotsOfStage stage' (accumulatedShots (submit stage A st)) =
      shotsOfStage stage' (accumulatedShots st)"
    by (simp add: accumulatedShots_submit shotsOfStage_append
        shotsOfStage_otherShots_other [OF assms(2)] shotsOfStage_tagged_other [OF assms])
  have rest: "otherShots stage (accumulatedShots (submit stage A st)) =
      otherShots stage (accumulatedShots st)"
    by (simp add: accumulatedShots_submit otherShots_append otherShots_idem
        otherShots_tagged [OF assms(1)])
  have merged: "mergeShots (mergeShots (accumulatedShots st) stage A) stage B =
      mergeShots (accumulatedShots st) stage B"
    using otherShots_tagged [OF assms(1)] by (simp add: mergeShots_def otherShots_def)
  have twice: "submit stage B (submit stage A st) = submit stage B st"
    by (simp add: submit_def merged)
  from own other rest twice show ?thesis
    by (simp add: accumulatedShots_submit)
qed

text \<open>
  A store with one shot of the top and one of the middle stage; \<open>tofShotA\<close> and then
  \<open>tofShotB\<close> are submitted for the top stage.
\<close>

lemma submit_replaces_stage_witness:
  "shotsOfStage TOF (accumulatedShots (submit TOF [tofShotA] twoStageState)) = [tofShotA] \<and>
   shotsOfStage MOF (accumulatedShots (submit TOF [tofShotA] twoStageState)) = [mofShot] \<and>
   submit TOF [tofShotB] (submit TOF [tofShotA] twoStageState) =
     submit TOF [tofShotB] twoStageState \<and>
   accumulatedShots (submit TOF [tofShotB] (submit TOF [tofShotA] twoStageState)) =
     [mofShot, tofShotB]"
proof -
  have tagged: "list_all (\<lambda>s. s ''funnelStage'' = Some (Str (stageName TOF))) [tofShotA]"
    by (simp add: tofShotA_def)
  have other: "MOF \<noteq> TOF" by simp
  have st: "accumulatedShots twoStageState = [oldTofShot, mofShot]"
    by (simp add: twoStageState_def)
  have f: "oldTofShot ''funnelStage'' = Some (Str ''TOF'')" "mofShot ''funnelStage'' = Some (Str ''MOF'')"
    by (simp_all add: oldTofShot_def mofShot_def)
  show ?thesis
    using submit_replaces_stage [OF tagged other, of twoStageState "[tofShotB]"]
    by (simp add: st f accumulatedShots_submit shotsOfStage_def otherShots_def)
qed

section \<open>The validator: rows\<close>

lemma parseFloat_empty: "parseFloat [] = None"
  by (simp add: parseFloat_def)

lemma split_nonempty: "split sep s \<noteq> []"
  by (induction s) (auto split: list.splits)

lemma parts_nonempty: "parts line \<noteq> []"
  by (simp add: parts_def split_nonempty)

text \<open>Cells that are all empty record nothing and leave the flag as it is.\<close>

lemma foldl_fieldStep_empty:
  "list_all (\<lambda>p. p = []) cells \<Longrightarrow>
   \<exists>e'. foldl (fieldStep dateStr) (e, has, errs) (zip hs cells) = (e', has, errs)"
proof (induction cells arbitrary: e hs)
  case Nil
  then show ?case by simp
next
  case (Cons c cells)
  then show ?case
    by (cases hs) (simp_all add: parseFloat_empty)
qed

lemma list_all_empty_no_parse:
  "list_all (\<lambda>p. p = []) cells \<Longrightarrow> \<not> list_ex (\<lambda>p. parseFloat p \<noteq> None) cells"
  by (induction cells) (simp_all add: parseFloat_empty)

text \<open>The flag after the metric columns: whether some cell was read as a number.\<close>

lemma foldl_fieldStep_has:
  "length hs = length cells \<Longrightarrow>
   fst (snd (foldl (fieldStep dateStr) (e, has, errs) (zip hs cells))) =
     (has \<or> list_ex (\<lambda>p. parseFloat p \<noteq> None) cells)"
proof (induction cells arbitrary: e has errs hs)
  case Nil
  then show ?case by simp
next
  case (Cons c cells)
  then obtain h hs' where hs: "hs = h # hs'" by (cases hs) auto
  with Cons.prems have len: "length hs' = length cells" by simp
  show ?case
    unfolding hs using Cons.IH [OF len]
    by (cases "parseFloat c") auto
qed

text \<open>The entry built does not depend on the flag or on the errors recorded so far.\<close>

lemma foldl_fieldStep_entry:
  "fst (foldl (fieldStep dateStr) (e, has, errs) (zip hs cells)) =
   fst (foldl (fieldStep dateStr) (e, has', errs') (zip hs cells))"
proof (induction cells arbitrary: e has errs has' errs' hs)
  case Nil
  then show ?case by simp
next
  case (Cons c cells)
  show ?case
  proof (cases hs)
    case Nil
    then show ?thesis by simp
  next
    case (Cons h hs')
    then show ?thesis
      using Cons.IH by (cases "parseFloat c") auto
  qed
qed

text \<open>Every metric name of the header holds a number in the entry built from a row.\<close>

lemma foldl_fieldStep_numeric:
  "length hs = length cells \<Longrightarrow> (\<forall>h \<in> set hs0. \<exists>x. e h = Some (Num x)) \<Longrightarrow>
   \<forall>h \<in> set hs0 \<union> set hs.
     \<exists>x. fst (foldl (fieldStep dateStr) (e, has, errs) (zip hs cells)) h = Some (Num x)"
proof (induction cells arbitrary: e has errs hs hs0)
  case Nil
  then show ?case by simp
next
  case (Cons c cells)
  then obtain h hs' where hs: "hs = h # hs'" by (cases hs) auto
  with Cons.prems have len: "length hs' = length cells" by simp
  obtain e' has' errs' where st: "fieldStep dateStr (e, has, errs) (h, c) = (e', has', errs')"
    by (metis prod_cases3)
  have "\<forall>k \<in> set (h # hs0). \<exists>x. e' k = Some (Num x)"
    using st Cons.prems(2) by (cases "parseFloat c") (auto split: if_splits)
  from Cons.IH [OF len this, of has' errs'] show ?case
    by (simp add: hs st del: fieldStep.simps)
qed

lemma rowFields_numeric:
  assumes "length (tl rawHeaders) = length cells" and "h \<in> set (tl rawHeaders)"
  shows "\<exists>x. fst (foldl (fieldStep dateStr) ([''date'' \<mapsto> Str dateStr], False, errs)
                   (zip (tl rawHeaders) cells)) h = Some (Num x)"
  using foldl_fieldStep_numeric [OF assms(1), of "[]" "[''date'' \<mapsto> Str dateStr]" dateStr False errs]
    assms(2) by simp

text \<open>What one data line adds to \<^verbatim>\<open>dailyData\<close>.\<close>

lemma rowStep_dailyData:
  "fst (rowStep rawHeaders (dailyData, validationErrors) (rowIndex, line)) =
     (if yieldsNumeric rawHeaders line then dailyData @ [rowEntry rawHeaders line] else dailyData)"
proof (cases "parts line")
  case Nil
  then show ?thesis by (simp add: parts_nonempty)
next
  case (Cons dateStr cells)
  show ?thesis
  proof (cases "list_all (\<lambda>p. p = []) (dateStr # cells)")
    case True
    then have "\<not> list_ex (\<lambda>p. parseFloat p \<noteq> None) cells"
      using list_all_empty_no_parse by simp
    with True Cons show ?thesis
      by (simp add: rowStep.simps yieldsNumeric_def)
  next
    case False
    show ?thesis
    proof (cases "length (dateStr # cells) = length rawHeaders")
      case ne: False
      with False Cons show ?thesis
        by (simp add: rowStep.simps yieldsNumeric_def)
    next
      case eq: True
      then have len: "length (tl rawHeaders) = length cells" by (cases rawHeaders) auto
      obtain e has errs where
        f: "foldl (fieldStep dateStr) ([''date'' \<mapsto> Str dateStr], False, validationErrors)
              (zip (tl rawHeaders) cells) = (e, has, errs)"
        by (metis prod_cases3)
      have "has = list_ex (\<lambda>p. parseFloat p \<noteq> None) cells"
        using foldl_fieldStep_has
          [OF len, of dateStr "[''date'' \<mapsto> Str dateStr]" False validationErrors] f
        by simp
      moreover have "e = rowEntry rawHeaders line"
        using foldl_fieldStep_entry
          [of dateStr "[''date'' \<mapsto> Str dateStr]" False validationErrors "tl rawHeaders" cells
            False "[]"] f Cons
        by (simp add: rowEntry_def)
      ultimately show ?thesis
        using False Cons eq f
        by (auto simp add: rowStep.simps yieldsNumeric_def)
    qed
  qed
qed

lemma foldl_rowStep_dailyData:
  "fst (foldl (rowStep rawHeaders) (dailyData, errs) rows) =
     dailyData @ map (rowEntry rawHeaders) (filter (yieldsNumeric rawHeaders) (map snd rows))"
proof (induction rows arbitrary: dailyData errs)
  case Nil
  then show ?case by simp
next
  case (Cons r rows)
  obtain i line where r: "r = (i, line)" by (cases r)
  obtain dd' errs' where s: "rowStep rawHeaders (dailyData, errs) (i, line) = (dd', errs')"
    by (cases "rowStep rawHeaders (dailyData, errs) (i, line)")
  have dd': "dd' = (if yieldsNumeric rawHeaders line
                     then dailyData @ [rowEntry rawHeaders line] else dailyData)"
    using rowStep_dailyData [of rawHeaders dailyData errs i line] s by simp
  show ?case
    using Cons.IH [of dd' errs'] by (simp add: r s dd')
qed

lemma rowStep_blank_metrics:
  assumes "parts line = dateStr # cells"
    and "length (dateStr # cells) = length rawHeaders"
    and "list_all (\<lambda>p. p = []) cells"
  shows "rowStep rawHeaders (dailyData, validationErrors) (rowIndex, line) =
           (dailyData, validationErrors)"
proof -
  obtain e' where
    "foldl (fieldStep dateStr) ([''date'' \<mapsto> Str dateStr], False, validationErrors)
       (zip (tl rawHeaders) cells) = (e', False, validationErrors)"
    using foldl_fieldStep_empty [OF assms(3)] by blast
  then show ?thesis
    using assms(1,2) by (simp add: rowStep.simps)
qed

text \<open>
  Claim C10. A data line that has the header's column count and whose metric cells are
  all empty leaves both \<^verbatim>\<open>dailyData\<close> and \<^verbatim>\<open>validationErrors\<close> as they were: no
  error is recorded and no entry is added, so that the result of going through the rows
  is the same with the line as without it. In general \<^verbatim>\<open>dailyData\<close> holds, in input
  order, one entry for each data line that yielded a numeric metric field, and none for
  the others.
\<close>

theorem blank_row_excluded:
  assumes "parts line = dateStr # cells"
    and "length (dateStr # cells) = length rawHeaders"
    and "list_all (\<lambda>p. p = []) cells"
  shows "rowStep rawHeaders (dailyData, validationErrors) (rowIndex, line) =
           (dailyData, validationErrors) \<and>
         \<not> yieldsNumeric rawHeaders line \<and>
         foldl (rowStep rawHeaders) acc (before @ (rowIndex, line) # after) =
           foldl (rowStep rawHeaders) acc (before @ after) \<and>
         fst (collectRows rawHeaders dataLines) =
           map (rowEntry rawHeaders) (filter (yieldsNumeric rawHeaders) dataLines) \<and>
         length (fst (collectRows rawHeaders dataLines)) =
           length (filter (yieldsNumeric rawHeaders) dataLines)"
proof -
  have noop: "rowStep rawHeaders (dd, errs) (rowIndex, line) = (dd, errs)" for dd errs
    by (rule rowStep_blank_metrics [OF assms])
  have none: "\<not> yieldsNumeric rawHeaders line"
    using list_all_empty_no_parse [OF assms(3)] assms(1) by (simp add: yieldsNumeric_def)
  obtain dd errs where b: "foldl (rowStep rawHeaders) acc before = (dd, errs)"
    by (cases "foldl (rowStep rawHeaders) acc before")
  have skip: "foldl (rowStep rawHeaders) acc (before @ (rowIndex, line) # after) =
      foldl (rowStep rawHeaders) acc (before @ after)"
    by (simp add: b noop)
  have all: "fst (collectRows rawHeaders dataLines) =
      map (rowEntry rawHeaders) (filter (yieldsNumeric rawHeaders) dataLines)"
    by (simp add: collectRows_def foldl_rowStep_dailyData)
  from noop none skip all show ?thesis by simp
qed

text \<open>
  With the header \<^verbatim>\<open>DATE,CPM,CTR\<close>: the line \<^verbatim>\<open>1 Mar,,\<close> has three columns and
  two empty metric cells, and of the two lines \<^verbatim>\<open>1 Mar,,\<close> and \<^verbatim>\<open>2 Mar,5,\<close> only
  the second gives an entry.
\<close>

theorem blank_row_excluded_witness:
  "parts ''1 Mar,,'' = [''1 Mar'', [], []] \<and>
   rowStep [''DATE'', ''CPM'', ''CTR''] ([], []) (0, ''1 Mar,,'') = ([], []) \<and>
   \<not> yieldsNumeric [''DATE'', ''CPM'', ''CTR''] ''1 Mar,,'' \<and>
   length (fst (collectRows [''DATE'', ''CPM'', ''CTR''] [''1 Mar,,'', ''2 Mar,5,''])) = 1"
proof -
  have p: "parts ''1 Mar,,'' = ''1 Mar'' # [[], []]"
    by (simp add: parts_def trim_def isWhite_def)
  have l: "length (''1 Mar'' # [[], []]) = length [''DATE'', ''CPM'', ''CTR'']" by simp
  have a: "list_all (\<lambda>p. p = []) [[], []::string]" by simp
  have q: "parts ''2 Mar,5,'' = [''2 Mar'', ''5'', []]"
    by (simp add: parts_def trim_def isWhite_def)
  have five: "parseFloat ''5'' = Some 5"
    by (simp add: parseFloat_def unsignedDecimal_def fractionPart_def isDigit_def digitTable_def
        digitsValue_def exponentPart_def scale10_def isWhite_def)
  have y: "yieldsNumeric [''DATE'', ''CPM'', ''CTR''] ''2 Mar,5,''"
    by (simp add: yieldsNumeric_def q five)
  show ?thesis
    using blank_row_excluded [OF p l a, where dailyData = "[]" and validationErrors = "[]"
        and rowIndex = 0 and dataLines = "[''1 Mar,,'', ''2 Mar,5,'']"]
    by (simp add: p y)
qed

section \<open>The validator: failing on recorded errors\<close>

lemma parseDaily_errors:
  "readRows text = Inr (metricNames, dailyData, validationErrors) \<Longrightarrow> validationErrors \<noteq> [] \<Longrightarrow>
   parseDaily text = Inl (validationFailure validationErrors)"
  by (simp add: parseDaily_def)

text \<open>
  Claim C7. Whenever the accumulation has recorded at least one error (of whatever
  kind: \<open>validationErrors\<close> is the one list they all go to), \<^verbatim>\<open>parseCSV\<close> throws: the
  error carries the first five recorded messages at most, with the number of the
  remaining ones when there are more than five; neither daily entries nor shots come
  out of the parse, \<^verbatim>\<open>onDataLoaded\<close> is not called and the stored shots and the
  uploaded flags are as before.
\<close>

theorem recorded_errors_fail:
  assumes "readRows text = Inr (metricNames, dailyData, validationErrors)"
    and "validationErrors \<noteq> []"
  shows "parseDaily text =
           Inl (ValidationFailed (take 5 validationErrors)
                  (if 5 < length validationErrors then Some (length validationErrors - 5) else None)) \<and>
         parseShots text stage =
           Inl (ValidationFailed (take 5 validationErrors)
                  (if 5 < length validationErrors then Some (length validationErrors - 5) else None)) \<and>
         snd (parseCSV text stage st) = None \<and>
         accumulatedShots (fst (parseCSV text stage st)) = accumulatedShots st \<and>
         uploadedStages (fst (parseCSV text stage st)) = uploadedStages st \<and>
         errors (fst (parseCSV text stage st)) stage =
           Some (Some (ValidationFailed (take 5 validationErrors)
                  (if 5 < length validationErrors then Some (length validationErrors - 5) else None)))"
proof -
  have d: "parseDaily text = Inl (validationFailure validationErrors)"
    by (rule parseDaily_errors [OF assms])
  then have s: "parseShots text stage = Inl (validationFailure validationErrors)"
    by (simp add: parseShots_def)
  from d s show ?thesis
    by (simp add: parseCSV_def validationFailure_def)
qed

lemma parseFloat_x: "parseFloat ''x'' = None"
  by (simp add: parseFloat_def unsignedDecimal_def fractionPart_def isDigit_def digitTable_def
      isWhite_def)

lemma sixBadRows_lines:
  "csvLines sixBadRowsCsv = [''DATE,CPM'', ''a,x'', ''b,x'', ''c,x'', ''d,x'', ''e,x'', ''f,x'']"
  by (simp add: csvLines_def sixBadRowsCsv_def trim_def isWhite_def)

lemma sixBadRows_header: "parts ''DATE,CPM'' = [''DATE'', ''CPM'']"
  by (simp add: parts_def trim_def isWhite_def)

lemma toUpperCase_DATE: "toUpperCase ''DATE'' = ''DATE''"
  by (simp add: toUpperCase_def upperChar_def caseTable_def)

lemma sixBadRows_headerErrors:
  "headerErrors [''CPM''] =
     [MissingColumns [''Ctr'', ''Reach'', ''Link clicks'', ''Landing page views'', ''Add to carts'',
        ''Initiate checkout'', ''Conversions'', ''Cpa'', ''Roas'', ''Ad spent'', ''Ad frequency'']]"
  by (simp add: headerErrors_def requiredMetricNames_def toLowerCase_def lowerChar_def
      capitalize_def upperChar_def caseTable_def)

lemma sixBadRows_parts:
  "parts ''a,x'' = [''a'', ''x'']" "parts ''b,x'' = [''b'', ''x'']" "parts ''c,x'' = [''c'', ''x'']"
  "parts ''d,x'' = [''d'', ''x'']" "parts ''e,x'' = [''e'', ''x'']" "parts ''f,x'' = [''f'', ''x'']"
  by (simp_all add: parts_def trim_def isWhite_def)

lemma sixBadRows_readRows: "readRows sixBadRowsCsv = Inr ([''CPM''], [], sixBadRowsErrors)"
  by (simp add: readRows_def sixBadRows_lines sixBadRows_header toUpperCase_DATE collect_def
      collectRows_def sixBadRows_headerErrors enumerate_eq_zip upt_rec rowStep.simps
      sixBadRows_parts parseFloat_x sixBadRowsErrors_def)

text \<open>
  At the file of six bad rows, uploaded for the middle stage into the store of two
  shots: seven errors are recorded, five are carried and two are counted.
\<close>

theorem recorded_errors_fail_witness:
  "readRows sixBadRowsCsv = Inr ([''CPM''], [], sixBadRowsErrors) \<and>
   parseShots sixBadRowsCsv MOF = Inl (ValidationFailed (take 5 sixBadRowsErrors) (Some 2)) \<and>
   snd (parseCSV sixBadRowsCsv MOF twoStageState) = None \<and>
   accumulatedShots (fst (parseCSV sixBadRowsCsv MOF twoStageState)) = [oldTofShot, mofShot]"
proof -
  have n: "sixBadRowsErrors \<noteq> []" "length sixBadRowsErrors = 7"
    by (simp_all add: sixBadRowsErrors_def)
  show ?thesis
    using recorded_errors_fail [OF sixBadRows_readRows n(1), of MOF twoStageState]
    by (simp add: n(2) sixBadRows_readRows twoStageState_def)
qed

section \<open>The shot aggregator\<close>

lemma foldl_upd_lookup:
  "foldl (\<lambda>m k. m(k \<mapsto> f k)) m0 ks k' = (if k' \<in> set ks then Some (f k') else m0 k')"
  by (induction ks arbitrary: m0) auto

text \<open>
  A field of a shot: the window's average when the header has a metric of that name,
  and otherwise what lines 131 to 135 assigned.
\<close>

lemma makeShot_metric:
  "k \<in> set metricNames \<Longrightarrow>
   makeShot metricNames stage i daysInShot k = Some (Num (windowAverage daysInShot k))"
  by (simp add: makeShot_def foldl_upd_lookup)

lemma makeShot_other:
  "k \<notin> set metricNames \<Longrightarrow>
   makeShot metricNames stage i daysInShot k = shotBase stage i daysInShot k"
  by (simp add: makeShot_def foldl_upd_lookup)

lemma foldl_plus: "foldl (\<lambda>acc x. acc + f x) (a::real) xs = a + sum_list (map f xs)"
  by (induction xs arbitrary: a) simp_all

lemma windowAverage_mean:
  "windowAverage daysInShot m =
     (\<Sum>day\<leftarrow>daysInShot. nullish (day m) 0) / real (length daysInShot)"
  by (simp add: windowAverage_def foldl_plus)

lemma shotLoop_step:
  "i < length dailyData \<Longrightarrow>
   shotLoop metricNames stage dailyData i shotData =
   shotLoop metricNames stage dailyData (i + 3)
     (shotData @ [makeShot metricNames stage i (slice dailyData i (i + 3))])"
  by (subst shotLoop.simps) (simp add: slice_def)

lemma shotLoop_done:
  "\<not> i < length dailyData \<Longrightarrow> shotLoop metricNames stage dailyData i shotData = shotData"
  by (subst shotLoop.simps) simp

text \<open>The loop started at a multiple of three appends one shot for each remaining window.\<close>

lemma shotLoop_windows_from:
  "shotLoop metricNames stage dailyData (3 * j) shotData =
   shotData @ map (\<lambda>k. makeShot metricNames stage (3 * k) (window dailyData k))
                  [j..<shotCount (length dailyData)]"
proof (induction "shotCount (length dailyData) - j" arbitrary: j shotData)
  case 0
  then have "\<not> 3 * j < length dailyData" by (simp add: shotCount_def)
  moreover from 0 have "[j..<shotCount (length dailyData)] = []" by simp
  ultimately show ?case by (simp add: shotLoop_done)
next
  case (Suc d)
  then have lt: "3 * j < length dailyData" and jl: "j < shotCount (length dailyData)"
    by (simp_all add: shotCount_def)
  have d: "d = shotCount (length dailyData) - Suc j" using Suc.hyps(2) by simp
  have e: "3 * j + 3 = 3 * Suc j" by simp
  have w: "slice dailyData (3 * j) (3 * Suc j) = window dailyData j"
    by (simp add: slice_def window_def)
  have "shotLoop metricNames stage dailyData (3 * j) shotData =
        shotLoop metricNames stage dailyData (3 * Suc j)
          (shotData @ [makeShot metricNames stage (3 * j) (window dailyData j)])"
    using shotLoop_step [OF lt, of metricNames stage shotData] by (simp only: e w)
  also have "\<dots> = (shotData @ [makeShot metricNames stage (3 * j) (window dailyData j)]) @
      map (\<lambda>k. makeShot metricNames stage (3 * k) (window dailyData k))
          [Suc j..<shotCount (length dailyData)]"
    by (rule Suc.hyps(1) [OF d])
  finally show ?case using jl by (simp add: upt_conv_Cons)
qed

lemma shotLoop_windows:
  "shotLoop metricNames stage dailyData 0 [] =
   map (\<lambda>k. makeShot metricNames stage (3 * k) (window dailyData k))
       [0..<shotCount (length dailyData)]"
  using shotLoop_windows_from [of metricNames stage dailyData 0 "[]"] by simp

text \<open>The number of shots is the number of days divided by three, rounded up.\<close>

lemma length_shotLoop:
  "length (shotLoop metricNames stage dailyData 0 []) = (length dailyData + 2) div 3"
  by (simp add: shotLoop_windows shotCount_def)

lemma aggregateShots_windows:
  assumes "dailyData \<noteq> []"
  shows "aggregateShots metricNames stage dailyData =
     Inr (map (\<lambda>k. makeShot metricNames stage (3 * k) (window dailyData k))
              [0..<shotCount (length dailyData)])"
proof -
  from assms have "0 < shotCount (length dailyData)"
    by (cases dailyData) (simp_all add: shotCount_def)
  then have "[0..<shotCount (length dailyData)] \<noteq> []" by simp
  then show ?thesis
    by (simp add: aggregateShots_def shotLoop_windows split: list.splits)
qed

text \<open>
  The windows are consecutive and exhaustive: put end to end they are the daily
  sequence. Each holds one to three entries, and each but the last holds three.
\<close>

lemma concat_windows_take: "concat (map (window xs) [0..<n]) = take (3 * n) xs"
proof (induction n)
  case 0
  then show ?case by simp
next
  case (Suc n)
  have "take (3 * Suc n) xs = take (3 * n) xs @ take 3 (drop (3 * n) xs)"
    using take_add [of "3 * n" 3 xs] by (simp add: add.commute)
  with Suc show ?case by (simp add: window_def)
qed

lemma concat_windows: "concat (map (window xs) [0..<shotCount (length xs)]) = xs"
  by (simp add: concat_windows_take shotCount_def)

lemma length_window: "length (window xs k) = min 3 (length xs - 3 * k)"
  by (simp add: window_def)

lemma window_size:
  "k < shotCount (length xs) \<Longrightarrow> 1 \<le> length (window xs k) \<and> length (window xs k) \<le> 3"
  by (simp add: length_window shotCount_def)

lemma window_full: "Suc k < shotCount (length xs) \<Longrightarrow> length (window xs k) = 3"
  by (simp add: length_window shotCount_def)

lemma sum_window_lengths:
  "(\<Sum>k\<leftarrow>[0..<shotCount (length xs)]. length (window xs k)) = length xs"
proof -
  have "length (concat (map (window xs) [0..<shotCount (length xs)])) = length xs"
    by (simp only: concat_windows)
  then show ?thesis by (simp add: length_concat comp_def)
qed

text \<open>
  The fields of the shot of window \<open>k\<close>, for a header none of whose metric columns is
  named like one of the five fields the aggregator assigns itself.
\<close>

lemma shot_own_fields:
  assumes "''shotId'' \<notin> set metricNames" and "''startDate'' \<notin> set metricNames"
    and "''endDate'' \<notin> set metricNames" and "''numDaysInShot'' \<notin> set metricNames"
    and "''funnelStage'' \<notin> set metricNames"
  shows "makeShot metricNames stage (3 * k) (window dailyData k) ''shotId'' =
           Some (Str (stageName stage @ ''-Shot '' @ showNat (k + 1)))"
    and "makeShot metricNames stage (3 * k) (window dailyData k) ''startDate'' =
           hd (window dailyData k) ''date''"
    and "makeShot metricNames stage (3 * k) (window dailyData k) ''endDate'' =
           last (window dailyData k) ''date''"
    and "makeShot metricNames stage (3 * k) (window dailyData k) ''numDaysInShot'' =
           Some (Num (real (length (window dailyData k))))"
    and "makeShot metricNames stage (3 * k) (window dailyData k) ''funnelStage'' =
           Some (Str (stageName stage))"
  using assms by (simp_all add: makeShot_other shotBase_def)

lemma shot_metric_mean:
  "m \<in> set metricNames \<Longrightarrow>
   makeShot metricNames stage (3 * k) (window dailyData k) m =
     Some (Num ((\<Sum>day\<leftarrow>window dailyData k. nullish (day m) 0) /
                real (length (window dailyData k))))"
  by (simp add: makeShot_metric windowAverage_mean)

lemma real_sum_list: "real (\<Sum>x\<leftarrow>xs. f x) = (\<Sum>x\<leftarrow>xs. real (f x))"
  by (induction xs) simp_all

text \<open>With no metric column named \<^verbatim>\<open>numDaysInShot\<close>, the days of the shots add up.\<close>

lemma sum_numDaysInShot:
  assumes "''numDaysInShot'' \<notin> set metricNames"
  shows "(\<Sum>shot\<leftarrow>shotLoop metricNames stage dailyData 0 []. nullish (shot ''numDaysInShot'') 0) =
           real (length dailyData)"
proof -
  have "(\<Sum>shot\<leftarrow>shotLoop metricNames stage dailyData 0 []. nullish (shot ''numDaysInShot'') 0) =
        (\<Sum>k\<leftarrow>[0..<shotCount (length dailyData)]. real (length (window dailyData k)))"
    using assms by (simp add: shotLoop_windows comp_def makeShot_other shotBase_def)
  also have "\<dots> = real (\<Sum>k\<leftarrow>[0..<shotCount (length dailyData)]. length (window dailyData k))"
    by (simp only: real_sum_list)
  finally show ?thesis by (simp only: sum_window_lengths)
qed

text \<open>With no metric column named \<^verbatim>\<open>funnelStage\<close>, every shot carries its stage.\<close>

lemma shotLoop_tagged:
  assumes "''funnelStage'' \<notin> set metricNames"
  shows "list_all (\<lambda>s. s ''funnelStage'' = Some (Str (stageName stage)))
           (shotLoop metricNames stage dailyData 0 [])"
  using assms by (simp add: shotLoop_windows list_all_iff makeShot_other shotBase_def)

lemma parseShots_tagged:
  assumes "readRows text = Inr (metricNames, dailyData, validationErrors)"
    and "''funnelStage'' \<notin> set metricNames"
    and "parseShots text stage = Inr shotData"
  shows "list_all (\<lambda>s. s ''funnelStage'' = Some (Str (stageName stage))) shotData"
proof -
  from assms(1,3) have "aggregateShots metricNames stage dailyData = Inr shotData"
    by (simp add: parseShots_def parseDaily_def split: if_splits)
  then have "shotData = shotLoop metricNames stage dailyData 0 []"
    by (simp add: aggregateShots_def split: list.splits)
  with shotLoop_tagged [OF assms(2)] show ?thesis by simp
qed

text \<open>The loop on one day and on three days.\<close>

lemma shotLoop_one:
  "shotLoop metricNames stage [d] 0 [] = [makeShot metricNames stage 0 [d]]"
  by (simp add: shotLoop_step shotLoop_done slice_def)

lemma shotLoop_three:
  "shotLoop metricNames stage [d1, d2, d3] 0 [] = [makeShot metricNames stage 0 [d1, d2, d3]]"
  by (simp add: shotLoop_step shotLoop_done slice_def)

section \<open>The cross-metric checks\<close>

text \<open>
  Each violation found in an entry's own fields, read under the names of lines 80 to
  86, is recorded with the entry's \<^verbatim>\<open>date\<close>.
\<close>

lemma rangeChecks_records:
  "nullish (day ''Ad spent'') 0 < 0 \<Longrightarrow>
     CannotBeNegative (day ''date'') ''Ad spent'' \<in> set (rangeChecks day)"
  "nullish (day ''Conversions'') 0 < 0 \<Longrightarrow>
     CannotBeNegative (day ''date'') ''Conversions'' \<in> set (rangeChecks day)"
  "nullish (day ''LINK CLICKS'') 0 < 0 \<Longrightarrow>
     CannotBeNegative (day ''date'') ''LINK CLICKS'' \<in> set (rangeChecks day)"
  "nullish (day ''REACH'') 0 < 0 \<Longrightarrow>
     CannotBeNegative (day ''date'') ''REACH'' \<in> set (rangeChecks day)"
  "nullish (day ''AD FREQUENCY'') 0 < 0 \<Longrightarrow>
     CannotBeNegative (day ''date'') ''AD FREQUENCY'' \<in> set (rangeChecks day)"
  "0 < nullish (day ''REACH'') 0 \<Longrightarrow> nullish (day ''REACH'') 0 < nullish (day ''LINK CLICKS'') 0 \<Longrightarrow>
     ClicksExceedReach (day ''date'') (nullish (day ''LINK CLICKS'') 0) (nullish (day ''REACH'') 0)
       \<in> set (rangeChecks day)"
  "nullish (day ''CTR'') 0 < 0 \<or> 1 < nullish (day ''CTR'') 0 \<Longrightarrow>
     CtrOutOfRange (day ''date'') (nullish (day ''CTR'') 0) \<in> set (rangeChecks day)"
  "nullish (day ''ROAS'') 0 < 0 \<Longrightarrow>
     RoasNegative (day ''date'') (nullish (day ''ROAS'') 0) \<in> set (rangeChecks day)"
  by (simp_all add: rangeChecks_def Let_def)

lemma readRows_rangeChecks:
  assumes "readRows text = Inr (metricNames, dailyData, validationErrors)"
    and "day \<in> set dailyData"
  shows "set (rangeChecks day) \<subseteq> set validationErrors"
  using assms
  by (auto simp add: readRows_def collect_def split: list.splits if_splits prod.splits)

text \<open>A recorded violation makes the parse fail.\<close>

lemma violation_fails:
  assumes "readRows text = Inr (metricNames, dailyData, validationErrors)"
    and "day \<in> set dailyData" and "rangeChecks day \<noteq> []"
  shows "parseShots text stage = Inl (validationFailure validationErrors)"
proof -
  from assms(3) obtain e where "e \<in> set (rangeChecks day)"
    by (cases "rangeChecks day") auto
  with readRows_rangeChecks [OF assms(1,2)] have "validationErrors \<noteq> []" by auto
  with assms(1) show ?thesis
    by (simp add: parseShots_def parseDaily_def)
qed

text \<open>
  An entry with 2000 under \<^verbatim>\<open>LINK CLICKS\<close> and 1000 under \<^verbatim>\<open>REACH\<close>: the error is
  recorded with the entry's date.
\<close>

lemma clicks_exceed_reach_recorded:
  "day ''LINK CLICKS'' = Some (Num 2000) \<Longrightarrow> day ''REACH'' = Some (Num 1000) \<Longrightarrow>
   ClicksExceedReach (day ''date'') 2000 1000 \<in> set (rangeChecks day)"
  by (simp add: rangeChecks_def Let_def)

text \<open>The checks do not read the cost-per-mille.\<close>

lemma rangeChecks_ignores_CPM: "rangeChecks (day(''CPM'' := v)) = rangeChecks day"
  by (simp add: rangeChecks_def)

section \<open>The template, through the pipeline\<close>

lemma template_lines:
  "csvLines templateCsv = [templateHeaders, templateData1, templateData2, templateData3]"
  by (simp add: csvLines_def templateCsv_def templateHeaders_def templateData1_def
      templateData2_def templateData3_def trim_def isWhite_def)

lemma template_header: "parts templateHeaders = ''DATE'' # templateMetricNames"
  by (simp add: parts_def templateHeaders_def templateMetricNames_def trim_def isWhite_def)

lemma template_headerErrors: "headerErrors templateMetricNames = []"
  by (simp add: headerErrors_def templateMetricNames_def requiredMetricNames_def toLowerCase_def
      lowerChar_def caseTable_def)

lemmas evalRow =
  rowStep.simps parts_def trim_def isWhite_def parseFloat_def unsignedDecimal_def
  fractionPart_def isDigit_def digitTable_def digitsValue_def exponentPart_def scale10_def

lemma template_row1:
  "rowStep (''DATE'' # templateMetricNames) (dd, errs) (i, templateData1) =
     (dd @ [templateDay1], errs)"
  by (simp add: evalRow templateMetricNames_def templateData1_def templateDay1_def)

lemma template_row2:
  "rowStep (''DATE'' # templateMetricNames) (dd, errs) (i, templateData2) =
     (dd @ [templateDay2], errs)"
  by (simp add: evalRow templateMetricNames_def templateData2_def templateDay2_def)

lemma template_row3:
  "rowStep (''DATE'' # templateMetricNames) (dd, errs) (i, templateData3) =
     (dd @ [templateDay3], errs)"
  by (simp add: evalRow templateMetricNames_def templateData3_def templateDay3_def)

lemma template_checks:
  "rangeChecks templateDay1 = []" "rangeChecks templateDay2 = []" "rangeChecks templateDay3 = []"
  by (simp_all add: rangeChecks_def Let_def templateDay1_def templateDay2_def templateDay3_def)

lemma template_names_nonempty: "templateMetricNames \<noteq> []"
  by (simp add: templateMetricNames_def)

lemma template_readRows:
  "readRows templateCsv =
     Inr (templateMetricNames, [templateDay1, templateDay2, templateDay3], [])"
  by (simp add: readRows_def template_lines template_header toUpperCase_DATE
      template_names_nonempty collect_def collectRows_def template_headerErrors enumerate_eq_zip
      upt_rec template_row1 template_row2 template_row3 template_checks)

lemma template_parseShots: "parseShots templateCsv TOF = Inr [templateShot]"
  by (simp add: parseShots_def parseDaily_def template_readRows aggregateShots_def shotLoop_three
      templateShot_def)

lemma template_parseCSV: "snd (parseCSV templateCsv TOF initialState) = Some [templateShot]"
  by (simp add: parseCSV_success [OF template_parseShots] initialState_def otherShots_def)

lemma templateShot_fields:
  "templateShot ''numDaysInShot'' = Some (Num 3)"
  "templateShot ''Ad spent'' = Some (Num 150)"
  "templateShot ''Conversions'' = Some (Num 10)"
proof -
  have "''numDaysInShot'' \<notin> set templateMetricNames"
    by (simp add: templateMetricNames_def)
  then show "templateShot ''numDaysInShot'' = Some (Num 3)"
    by (simp add: templateShot_def makeShot_other shotBase_def)
  have "''Ad spent'' \<in> set templateMetricNames"
    by (simp add: templateMetricNames_def)
  then show "templateShot ''Ad spent'' = Some (Num 150)"
    by (simp add: templateShot_def makeShot_metric windowAverage_def templateDay1_def
        templateDay2_def templateDay3_def)
  have "''Conversions'' \<in> set templateMetricNames"
    by (simp add: templateMetricNames_def)
  then show "templateShot ''Conversions'' = Some (Num 10)"
    by (simp add: templateShot_def makeShot_metric windowAverage_def templateDay1_def
        templateDay2_def templateDay3_def)
qed

lemma templateShot_totals:
  "totalAdSpent (calculateMetrics [templateShot]) = 450"
  "totalConversions (calculateMetrics [templateShot]) = 30"
proof -
  have "totalAdSpent (calculateMetrics [templateShot]) = sumAdSpent (foldl addShot zeroSums [templateShot])"
    by (simp add: calculateMetrics_def Let_def)
  then show "totalAdSpent (calculateMetrics [templateShot]) = 450"
    by (simp add: foldl_addShot_AdSpent templateShot_fields zeroSums_def del: foldl.simps)
  have "totalConversions (calculateMetrics [templateShot]) =
      sumConversions (foldl addShot zeroSums [templateShot])"
    by (simp add: calculateMetrics_def Let_def)
  then show "totalConversions (calculateMetrics [templateShot]) = 30"
    by (simp add: foldl_addShot_Conversions templateShot_fields zeroSums_def del: foldl.simps)
qed

text \<open>
  Claim C4 as stated, refuted. The template's three rows, uploaded for the top stage
  into the empty store, give the one shot \<open>templateShot\<close>, and the total conversions
  computed from it are not 90.
\<close>

theorem template_conversions_counterexample:
  "snd (parseCSV templateCsv TOF initialState) = Some [templateShot] \<and>
   totalConversions (calculateMetrics [templateShot]) \<noteq> 90"
  by (simp add: template_parseCSV templateShot_totals)

text \<open>
  Claim C4, amended. The template header with its three data rows (ad spend 150, 150,
  150 and conversions 10, 12, 8), uploaded for the top stage, gives exactly one shot,
  with \<^verbatim>\<open>numDaysInShot\<close> 3 and an average ad spend of 150; the metrics computed from
  it have a total ad spend of 450 and total conversions of 30.
\<close>

theorem template_pipeline:
  "snd (parseCSV templateCsv TOF initialState) = Some [templateShot] \<and>
   templateShot ''numDaysInShot'' = Some (Num 3) \<and>
   templateShot ''Ad spent'' = Some (Num 150) \<and>
   totalAdSpent (calculateMetrics [templateShot]) = 450 \<and>
   totalConversions (calculateMetrics [templateShot]) = 30"
  by (simp add: template_parseCSV templateShot_fields templateShot_totals)

section \<open>Metric columns named like a shot's own fields\<close>

text \<open>
  The validator accepts columns beyond the required ones, and the aggregator copies
  every column of the header into the shot after it has assigned \<^verbatim>\<open>shotId\<close>,
  \<^verbatim>\<open>startDate\<close>, \<^verbatim>\<open>endDate\<close>, \<^verbatim>\<open>numDaysInShot\<close> and \<^verbatim>\<open>funnelStage\<close>
  (line 140 after lines 131 to 135). A column of one of these names therefore replaces
  the field; a column named \<^verbatim>\<open>funnelStage\<close> replaces the stage that the merge of
  line 152 looks for. The lemmas \<open>length_shotLoop\<close>, \<open>concat_windows\<close>, \<open>window_size\<close>,
  \<open>window_full\<close>, \<open>shot_own_fields\<close>, \<open>shot_metric_mean\<close> and \<open>sum_numDaysInShot\<close>
  above say what holds of every daily sequence when no column is so named.
\<close>

lemma extraColumns_lines:
  "csvLines extraColumnsCsv =
     [templateHeaders @ '',numDaysInShot,shotId'', templateData1 @ '',7,5'']"
  by (simp add: csvLines_def extraColumnsCsv_def templateHeaders_def templateData1_def trim_def
      isWhite_def)

lemma extraColumns_header:
  "parts (templateHeaders @ '',numDaysInShot,shotId'') = ''DATE'' # extraColumnsMetricNames"
  by (simp add: parts_def templateHeaders_def extraColumnsMetricNames_def templateMetricNames_def
      trim_def isWhite_def)

lemma extraColumns_headerErrors: "headerErrors extraColumnsMetricNames = []"
  by (simp add: headerErrors_def extraColumnsMetricNames_def templateMetricNames_def
      requiredMetricNames_def toLowerCase_def lowerChar_def caseTable_def)

lemma extraColumns_row:
  "rowStep (''DATE'' # extraColumnsMetricNames) (dd, errs) (i, templateData1 @ '',7,5'') =
     (dd @ [extraColumnsDay], errs)"
  by (simp add: evalRow extraColumnsMetricNames_def templateMetricNames_def templateData1_def
      extraColumnsDay_def templateDay1_def)

lemma extraColumns_checks: "rangeChecks extraColumnsDay = []"
  by (simp add: rangeChecks_def Let_def extraColumnsDay_def templateDay1_def)

lemma extraColumns_names_nonempty: "extraColumnsMetricNames \<noteq> []"
  by (simp add: extraColumnsMetricNames_def templateMetricNames_def)

lemma extraColumns_readRows:
  "readRows extraColumnsCsv = Inr (extraColumnsMetricNames, [extraColumnsDay], [])"
  by (simp add: readRows_def extraColumns_lines extraColumns_header toUpperCase_DATE
      extraColumns_names_nonempty collect_def collectRows_def extraColumns_headerErrors
      enumerate_eq_zip upt_rec extraColumns_row extraColumns_checks)

lemma extraColumns_parseShots: "parseShots extraColumnsCsv TOF = Inr [extraColumnsShot]"
  by (simp add: parseShots_def parseDaily_def extraColumns_readRows aggregateShots_def
      shotLoop_one extraColumnsShot_def)

lemma extraColumns_members:
  "''numDaysInShot'' \<in> set extraColumnsMetricNames" "''shotId'' \<in> set extraColumnsMetricNames"
  by (simp_all add: extraColumnsMetricNames_def)

text \<open>
  Claim C1, at an input where the code departs from it. The file has the template's
  columns and two more, and one data row: one daily entry is validated and one shot is
  made of it, but the shot's \<^verbatim>\<open>numDaysInShot\<close> is 7, the value of the column of that
  name, and not 1, the number of days.
\<close>

theorem extra_column_replaces_numDaysInShot:
  "readRows extraColumnsCsv = Inr (extraColumnsMetricNames, [extraColumnsDay], []) \<and>
   parseShots extraColumnsCsv TOF = Inr [extraColumnsShot] \<and>
   extraColumnsShot ''numDaysInShot'' = Some (Num 7)"
  by (simp add: extraColumns_readRows extraColumns_parseShots extraColumnsShot_def
      makeShot_metric [OF extraColumns_members(1)] windowAverage_def extraColumnsDay_def)

text \<open>
  Claim C2, at an input where the code departs from it. For the same file the shot's
  \<^verbatim>\<open>shotId\<close> is the number 5, the value of the column of that name, and not the
  string \<^verbatim>\<open>TOF-Shot 1\<close>.
\<close>

theorem extra_column_replaces_shotId:
  "parseShots extraColumnsCsv TOF = Inr [extraColumnsShot] \<and>
   extraColumnsShot ''shotId'' = Some (Num 5) \<and>
   extraColumnsShot ''shotId'' \<noteq> Some (Str ''TOF-Shot 1'')"
  by (simp add: extraColumns_parseShots extraColumnsShot_def
      makeShot_metric [OF extraColumns_members(2)] windowAverage_def extraColumnsDay_def)














section \<open>A header in another case\<close>

text \<open>
  The header check compares the column names in lower case (line 37), so a header in
  upper case passes it; the cross-metric checks read the entry under the template's
  exact names (lines 80 to 86), and find nothing under them.
\<close>

lemma upperCase_lines:
  "csvLines upperCaseCsv =
     [''DATE,CPM,CTR,REACH,LINK CLICKS,LANDING PAGE VIEWS,ADD TO CARTS,INITIATE CHECKOUT,CONVERSIONS,CPA,ROAS,AD SPENT,AD FREQUENCY'',
      ''1 Mar,10.50,0.02,50000,1000,500,50,30,10,15.00,3.50,-150.00,1.8'']"
  by (simp add: csvLines_def upperCaseCsv_def trim_def isWhite_def)

lemma upperCase_header:
  "parts ''DATE,CPM,CTR,REACH,LINK CLICKS,LANDING PAGE VIEWS,ADD TO CARTS,INITIATE CHECKOUT,CONVERSIONS,CPA,ROAS,AD SPENT,AD FREQUENCY'' =
     ''DATE'' # upperCaseMetricNames"
  by (simp add: parts_def upperCaseMetricNames_def trim_def isWhite_def)

lemma upperCase_headerErrors: "headerErrors upperCaseMetricNames = []"
  by (simp add: headerErrors_def upperCaseMetricNames_def requiredMetricNames_def toLowerCase_def
      lowerChar_def caseTable_def)

lemma upperCase_row:
  "rowStep (''DATE'' # upperCaseMetricNames) (dd, errs)
     (i, ''1 Mar,10.50,0.02,50000,1000,500,50,30,10,15.00,3.50,-150.00,1.8'') =
     (dd @ [upperCaseDay], errs)"
  by (simp add: evalRow upperCaseMetricNames_def upperCaseDay_def)

lemma upperCase_checks: "rangeChecks upperCaseDay = []"
  by (simp add: rangeChecks_def Let_def upperCaseDay_def)

lemma upperCase_names_nonempty: "upperCaseMetricNames \<noteq> []"
  by (simp add: upperCaseMetricNames_def)

lemma upperCase_readRows:
  "readRows upperCaseCsv = Inr (upperCaseMetricNames, [upperCaseDay], [])"
  by (simp add: readRows_def upperCase_lines upperCase_header toUpperCase_DATE
      upperCase_names_nonempty collect_def collectRows_def upperCase_headerErrors
      enumerate_eq_zip upt_rec upperCase_row upperCase_checks)

lemma upperCase_parseShots: "parseShots upperCaseCsv TOF = Inr [upperCaseShot]"
  by (simp add: parseShots_def parseDaily_def upperCase_readRows aggregateShots_def
      shotLoop_one upperCaseShot_def)

text \<open>
  Claim C8, at an input where the code departs from it. The file has the template's
  columns named in upper case and one row whose ad spend is \<open>- 150\<close>: the entry is
  validated with no error recorded, and the parse succeeds with one shot.
\<close>

theorem upper_case_header_unchecked:
  "upperCaseDay ''AD SPENT'' = Some (Num (- 150)) \<and>
   readRows upperCaseCsv = Inr (upperCaseMetricNames, [upperCaseDay], []) \<and>
   parseShots upperCaseCsv TOF = Inr [upperCaseShot]"
  by (simp add: upperCase_readRows upperCase_parseShots) (simp add: upperCaseDay_def)

end
